theory Spec2Isabelle
  imports Main "HOL-Library.Word"
begin

section \<open>Machine integers and library values\<close>

text \<open>
  Go's \<open>uint32\<close> and \<open>int32\<close> are 32-bit words. A protobuf enum is an \<open>int32\<close>
  on the wire and in the generated Go type, so a field can hold a number that no
  enumerator names.
\<close>

type_synonym uint32 = "32 word"
type_synonym int32 = "32 word"

text \<open>
  \<open>anypb.Any\<close>, the wire envelope: a type URL and the serialized bytes. It is reached
  through a pointer everywhere, so an envelope is an \<open>Any option\<close> and \<open>None\<close> is the
  nil pointer.
\<close>

record Any =
  TypeUrl :: string
  Value :: "8 word list"

text \<open>
  \<open>proto.Equal\<close> of the protobuf library on two \<open>*anypb.Any\<close>: two nil pointers are
  both invalid messages and equal, a nil and a non-nil pointer are never equal, and two
  messages are equal when their populated fields are.
\<close>

fun proto_Equal :: "Any option \<Rightarrow> Any option \<Rightarrow> bool" where
  "proto_Equal None None = True"
| "proto_Equal None (Some y) = False"
| "proto_Equal (Some x) None = False"
| "proto_Equal (Some x) (Some y) = (TypeUrl x = TypeUrl y \<and> Value x = Value y)"

text \<open>
  \<open>strconv.Itoa\<close>: the decimal digits of an integer, with a minus sign when it is
  negative.
\<close>

definition digit_char :: "nat \<Rightarrow> char" where
  "digit_char d = ''0123456789'' ! d"

fun decimal :: "nat \<Rightarrow> string" where
  "decimal n = (if n < 10 then [digit_char n] else decimal (n div 10) @ [digit_char (n mod 10)])"

declare decimal.simps [simp del]

definition Itoa :: "int \<Rightarrow> string" where
  "Itoa i = (if i < 0 then CHR ''-'' # decimal (nat (- i)) else decimal (nat i))"

text \<open>
  \<open>net.JoinHostPort\<close>: \<open>host:port\<close>, with the host in brackets when it contains a
  colon (a literal IPv6 address).
\<close>

definition JoinHostPort :: "string \<Rightarrow> string \<Rightarrow> string" where
  "JoinHostPort host port =
     (if CHR '':'' \<in> set host then ''['' @ host @ '']:'' @ port else host @ '':'' @ port)"

section \<open>The endpoint-assignment message\<close>

text \<open>
  The messages of \<open>envoy.api.v2\<close> that \<open>parseEDSRespProto\<close> reads, with the fields it
  reads. A sub-message is held by pointer (\<open>option\<close>), a repeated field is a slice of
  pointers, a oneof is a datatype under a pointer. Every generated getter is nil-safe: on a
  nil receiver, or on a oneof holding the other case, it returns the zero value.
\<close>

datatype port_specifier = SocketAddress_PortValue uint32 | SocketAddress_NamedPort string

record SocketAddress =
  sa_Address :: string
  sa_PortSpecifier :: "port_specifier option"

datatype address_oneof = Address_SocketAddress "SocketAddress option" | Address_Pipe string

record Address =
  addr_Address :: "address_oneof option"

record Endpoint_pb =
  ep_Address :: "Address option"

datatype host_identifier = LbEndpoint_Endpoint "Endpoint_pb option" | LbEndpoint_EndpointName string

record LbEndpoint =
  lbe_HostIdentifier :: "host_identifier option"
  lbe_HealthStatus :: int32
  lbe_LoadBalancingWeight :: "uint32 option"

record Locality_pb =
  Region :: string
  Zone :: string
  SubZone :: string

record LocalityLbEndpoints =
  lle_Locality :: "Locality_pb option"
  lle_LbEndpoints :: "LbEndpoint option list"
  lle_LoadBalancingWeight :: "uint32 option"
  lle_Priority :: uint32

record FractionalPercent =
  fp_Numerator :: uint32
  fp_Denominator :: int32

record DropOverload =
  do_Category :: string
  do_DropPercentage :: "FractionalPercent option"

record Policy =
  pol_DropOverloads :: "DropOverload option list"

record ClusterLoadAssignment =
  Endpoints :: "LocalityLbEndpoints option list"
  Policy :: "Policy option"

text \<open>The enumerators of \<open>FractionalPercent.DenominatorType\<close>.\<close>

definition FractionalPercent_HUNDRED :: int32 where
  "FractionalPercent_HUNDRED = 0"

definition FractionalPercent_TEN_THOUSAND :: int32 where
  "FractionalPercent_TEN_THOUSAND = 1"

definition FractionalPercent_MILLION :: int32 where
  "FractionalPercent_MILLION = 2"

text \<open>The getters, each named after the Go method with the receiver's message in front.\<close>

definition SocketAddress_GetAddress :: "SocketAddress option \<Rightarrow> string" where
  "SocketAddress_GetAddress x = (case x of None \<Rightarrow> [] | Some s \<Rightarrow> sa_Address s)"

definition SocketAddress_GetPortValue :: "SocketAddress option \<Rightarrow> uint32" where
  "SocketAddress_GetPortValue x =
     (case x of
        None \<Rightarrow> 0
      | Some s \<Rightarrow> (case sa_PortSpecifier s of Some (SocketAddress_PortValue p) \<Rightarrow> p | _ \<Rightarrow> 0))"

definition Address_GetSocketAddress :: "Address option \<Rightarrow> SocketAddress option" where
  "Address_GetSocketAddress x =
     (case x of
        None \<Rightarrow> None
      | Some a \<Rightarrow> (case addr_Address a of Some (Address_SocketAddress s) \<Rightarrow> s | _ \<Rightarrow> None))"

definition Endpoint_GetAddress :: "Endpoint_pb option \<Rightarrow> Address option" where
  "Endpoint_GetAddress x = (case x of None \<Rightarrow> None | Some e \<Rightarrow> ep_Address e)"

definition LbEndpoint_GetEndpoint :: "LbEndpoint option \<Rightarrow> Endpoint_pb option" where
  "LbEndpoint_GetEndpoint x =
     (case x of
        None \<Rightarrow> None
      | Some l \<Rightarrow> (case lbe_HostIdentifier l of Some (LbEndpoint_Endpoint e) \<Rightarrow> e | _ \<Rightarrow> None))"

definition LbEndpoint_GetHealthStatus :: "LbEndpoint option \<Rightarrow> int32" where
  "LbEndpoint_GetHealthStatus x = (case x of None \<Rightarrow> 0 | Some l \<Rightarrow> lbe_HealthStatus l)"

definition LbEndpoint_GetLoadBalancingWeight :: "LbEndpoint option \<Rightarrow> uint32 option" where
  "LbEndpoint_GetLoadBalancingWeight x =
     (case x of None \<Rightarrow> None | Some l \<Rightarrow> lbe_LoadBalancingWeight l)"

definition UInt32Value_GetValue :: "uint32 option \<Rightarrow> uint32" where
  "UInt32Value_GetValue x = (case x of None \<Rightarrow> 0 | Some v \<Rightarrow> v)"

definition LocalityLbEndpoints_GetLocality :: "LocalityLbEndpoints option \<Rightarrow> Locality_pb option" where
  "LocalityLbEndpoints_GetLocality x = (case x of None \<Rightarrow> None | Some l \<Rightarrow> lle_Locality l)"

definition LocalityLbEndpoints_GetLbEndpoints :: "LocalityLbEndpoints option \<Rightarrow> LbEndpoint option list" where
  "LocalityLbEndpoints_GetLbEndpoints x = (case x of None \<Rightarrow> [] | Some l \<Rightarrow> lle_LbEndpoints l)"

definition LocalityLbEndpoints_GetLoadBalancingWeight :: "LocalityLbEndpoints option \<Rightarrow> uint32 option" where
  "LocalityLbEndpoints_GetLoadBalancingWeight x =
     (case x of None \<Rightarrow> None | Some l \<Rightarrow> lle_LoadBalancingWeight l)"

definition LocalityLbEndpoints_GetPriority :: "LocalityLbEndpoints option \<Rightarrow> uint32" where
  "LocalityLbEndpoints_GetPriority x = (case x of None \<Rightarrow> 0 | Some l \<Rightarrow> lle_Priority l)"

definition FractionalPercent_GetNumerator :: "FractionalPercent option \<Rightarrow> uint32" where
  "FractionalPercent_GetNumerator x = (case x of None \<Rightarrow> 0 | Some p \<Rightarrow> fp_Numerator p)"

definition FractionalPercent_GetDenominator :: "FractionalPercent option \<Rightarrow> int32" where
  "FractionalPercent_GetDenominator x =
     (case x of None \<Rightarrow> FractionalPercent_HUNDRED | Some p \<Rightarrow> fp_Denominator p)"

definition DropOverload_GetCategory :: "DropOverload option \<Rightarrow> string" where
  "DropOverload_GetCategory x = (case x of None \<Rightarrow> [] | Some d \<Rightarrow> do_Category d)"

definition DropOverload_GetDropPercentage :: "DropOverload option \<Rightarrow> FractionalPercent option" where
  "DropOverload_GetDropPercentage x = (case x of None \<Rightarrow> None | Some d \<Rightarrow> do_DropPercentage d)"

definition Policy_GetDropOverloads :: "Policy option \<Rightarrow> DropOverload option list" where
  "Policy_GetDropOverloads x = (case x of None \<Rightarrow> [] | Some p \<Rightarrow> pol_DropOverloads p)"

definition ClusterLoadAssignment_GetPolicy :: "ClusterLoadAssignment option \<Rightarrow> Policy option" where
  "ClusterLoadAssignment_GetPolicy x = (case x of None \<Rightarrow> None | Some m \<Rightarrow> Policy m)"

section \<open>Errors and panics\<close>

text \<open>
  A non-nil Go \<open>error\<close> built by \<open>fmt.Errorf\<close> is kept as its format string and its
  operands, unrendered: the operand of a \<open>%v\<close> is the value itself. An \<open>error\<close> result
  is an \<open>error option\<close>, \<open>None\<close> the nil error. A run-time panic is a result of its own.
\<close>

datatype fmt_operand =
    Operand_int int
  | Operand_string string
  | Operand_locality "LocalityLbEndpoints option"
  | Operand_priorities "uint32 set"

datatype error = Errorf string "fmt_operand list"

datatype panic = NilPointerDereference | InterfaceConversion

section \<open>The endpoints update\<close>

text \<open>
  The result types of package \<open>xdsresource\<close> and \<open>internal.LocalityID\<close>, with the
  fields the parser's composite literals set. A Go slice is a list; the nil slice and the
  empty slice are both \<open>[]\<close>.
\<close>

record OverloadDropConfig =
  Category :: string
  Numerator :: uint32
  Denominator :: uint32

record LocalityID =
  lid_Region :: string
  lid_Zone :: string
  lid_SubZone :: string

record Endpoint =
  HealthStatus :: int32
  Address :: string
  ep_Weight :: uint32

record Locality =
  ID :: LocalityID
  loc_Endpoints :: "Endpoint list"
  Weight :: uint32
  Priority :: uint32

record EndpointsUpdate =
  Drops :: "OverloadDropConfig list"
  Localities :: "Locality list"

definition EndpointsUpdate_zero :: EndpointsUpdate where
  "EndpointsUpdate_zero = \<lparr>Drops = [], Localities = []\<rparr>"

text \<open>The conversion \<open>xdsresource.EndpointHealthStatus(s)\<close> between two \<open>int32\<close> types.\<close>

definition EndpointHealthStatus :: "int32 \<Rightarrow> int32" where
  "EndpointHealthStatus s = s"

section \<open>The endpoints parser\<close>

text \<open>
  \<open>parseAddress\<close>. The port is converted \<open>uint32\<close> to \<open>int\<close> (64 bits), which keeps the
  value.
\<close>

definition parseAddress :: "SocketAddress option \<Rightarrow> string" where
  "parseAddress socketAddress =
     JoinHostPort (SocketAddress_GetAddress socketAddress)
       (Itoa (uint (SocketAddress_GetPortValue socketAddress)))"

text \<open>
  \<open>parseDropPolicy\<close>. The \<open>switch\<close> has no default: \<open>denominator\<close> keeps the zero value
  it was declared with.
\<close>

definition parseDropPolicy :: "DropOverload option \<Rightarrow> OverloadDropConfig" where
  "parseDropPolicy dropPolicy =
     (let percentage = DropOverload_GetDropPercentage dropPolicy;
          numerator = FractionalPercent_GetNumerator percentage;
          tag = FractionalPercent_GetDenominator percentage;
          denominator =
            (if tag = FractionalPercent_HUNDRED then 100
             else if tag = FractionalPercent_TEN_THOUSAND then 10000
             else if tag = FractionalPercent_MILLION then 1000000
             else 0)
      in \<lparr>Category = DropOverload_GetCategory dropPolicy,
          Numerator = numerator,
          Denominator = denominator\<rparr>)"

text \<open>\<open>parseEndpoints\<close>: the loop appends to \<open>endpoints\<close>, which starts empty.\<close>

fun parseEndpoints_loop :: "LbEndpoint option list \<Rightarrow> Endpoint list \<Rightarrow> Endpoint list" where
  "parseEndpoints_loop [] endpoints = endpoints"
| "parseEndpoints_loop (lbEndpoint # rest) endpoints =
     parseEndpoints_loop rest
       (endpoints @
        [\<lparr>HealthStatus = EndpointHealthStatus (LbEndpoint_GetHealthStatus lbEndpoint),
          Address = parseAddress
            (Address_GetSocketAddress (Endpoint_GetAddress (LbEndpoint_GetEndpoint lbEndpoint))),
          ep_Weight = UInt32Value_GetValue (LbEndpoint_GetLoadBalancingWeight lbEndpoint)\<rparr>])"

definition parseEndpoints :: "LbEndpoint option list \<Rightarrow> Endpoint list" where
  "parseEndpoints lbEndpoints = parseEndpoints_loop lbEndpoints []"

text \<open>The first loop of \<open>parseEDSRespProto\<close>, over the drop policies.\<close>

fun drops_loop :: "DropOverload option list \<Rightarrow> EndpointsUpdate \<Rightarrow> EndpointsUpdate" where
  "drops_loop [] ret = ret"
| "drops_loop (dropPolicy # rest) ret =
     drops_loop rest (ret\<lparr>Drops := Drops ret @ [parseDropPolicy dropPolicy]\<rparr>)"

text \<open>
  The second loop, over \<open>m.Endpoints\<close>. The map \<open>priorities\<close> of type
  \<open>map[uint32]struct{}\<close> is the set of its keys. The loop returns the error at the first
  entry whose locality is nil, and otherwise the map and the update it has built.
\<close>

fun localities_loop ::
  "LocalityLbEndpoints option list \<Rightarrow> uint32 set \<Rightarrow> EndpointsUpdate \<Rightarrow>
     error + (uint32 set \<times> EndpointsUpdate)" where
  "localities_loop [] priorities ret = Inr (priorities, ret)"
| "localities_loop (locality # rest) priorities ret =
     (case LocalityLbEndpoints_GetLocality locality of
        None \<Rightarrow>
          Inl (Errorf ''EDS response contains a locality without ID, locality: %+v''
                 [Operand_locality locality])
      | Some l \<Rightarrow>
          (let lid = \<lparr>lid_Region = Region l, lid_Zone = Zone l, lid_SubZone = SubZone l\<rparr>;
               priority = LocalityLbEndpoints_GetPriority locality
           in localities_loop rest (insert priority priorities)
                (ret\<lparr>Localities := Localities ret @
                   [\<lparr>ID = lid,
                     loc_Endpoints = parseEndpoints (LocalityLbEndpoints_GetLbEndpoints locality),
                     Weight = UInt32Value_GetValue
                       (LocalityLbEndpoints_GetLoadBalancingWeight locality),
                     Priority = priority\<rparr>]\<rparr>)))"

text \<open>
  The third loop: \<open>i\<close> counts from 0 up to \<open>len(priorities)\<close> and the first \<open>uint32(i)\<close>
  that is not a key is reported. \<open>Some\<close> is the error returned from inside the loop,
  \<open>None\<close> is falling out of it.
\<close>

function priorities_loop :: "nat \<Rightarrow> uint32 set \<Rightarrow> error option" where
  "priorities_loop i priorities =
     (if i < card priorities then
        (if word_of_nat i \<in> priorities then priorities_loop (Suc i) priorities
         else Some (Errorf ''priority %v missing (with different priorities %v received)''
                      [Operand_int (int i), Operand_priorities priorities]))
      else None)"
  by pat_completeness auto
termination
  by (relation "measure (\<lambda>(i, priorities). card priorities - i)") auto

declare priorities_loop.simps [simp del]

text \<open>
  \<open>parseEDSRespProto\<close>. The getters of the first loop accept a nil \<open>m\<close>; the read of
  \<open>m.Endpoints\<close> after it panics on one.
\<close>

definition parseEDSRespProto ::
  "ClusterLoadAssignment option \<Rightarrow> panic + (EndpointsUpdate \<times> error option)" where
  "parseEDSRespProto m =
     (let ret = drops_loop (Policy_GetDropOverloads (ClusterLoadAssignment_GetPolicy m))
                  EndpointsUpdate_zero
      in case m of
           None \<Rightarrow> Inl NilPointerDereference
         | Some msg \<Rightarrow>
             (case localities_loop (Endpoints msg) {} ret of
                Inl err \<Rightarrow> Inr (EndpointsUpdate_zero, Some err)
              | Inr (priorities, ret') \<Rightarrow>
                  (case priorities_loop 0 priorities of
                     Some err \<Rightarrow> Inr (EndpointsUpdate_zero, Some err)
                   | None \<Rightarrow> Inr (ret', None))))"

section \<open>The cluster resource type\<close>

text \<open>
  Modelled from the spec: the enumeration of resource kinds, which is declared in another
  file of the package. The specification gives it as \<open>enum{Cluster, Endpoints, \<dots>}\<close>; the
  code here names \<open>ClusterResource\<close>.
\<close>

datatype ResourceType_enum = ClusterResource | EndpointsResource

text \<open>
  \<open>resourceTypeState\<close> is declared in another file too; the composite literal of
  \<open>clusterType\<close> shows its three fields.
\<close>

record resourceTypeState =
  typeURL :: string
  typeEnum :: ResourceType_enum
  allResourcesRequiredInSotW :: bool

text \<open>\<open>clusterResourceType\<close> embeds the state and has no field of its own.\<close>

record clusterResourceType =
  state :: resourceTypeState

definition clusterType :: clusterResourceType where
  "clusterType =
     \<lparr>state = \<lparr>typeURL = ''type.googleapis.com/envoy.config.cluster.v3.Cluster'',
                typeEnum = ClusterResource,
                allResourcesRequiredInSotW = True\<rparr>\<rparr>"

text \<open>
  \<open>ClusterUpdate\<close> is declared in another file. The code here reads \<open>SecurityCfg\<close> and
  \<open>Raw\<close> and builds the zero value \<open>ClusterUpdate{}\<close>. The type of \<open>SecurityCfg\<close> and
  the remaining decoded fields are parameters: any types with a zero value.
\<close>

record ('sc, 'f) ClusterUpdate =
  SecurityCfg :: 'sc
  Raw :: "Any option"
  OtherFields :: 'f

definition ClusterUpdate_zero :: "('sc::zero, 'f::zero) ClusterUpdate" where
  "ClusterUpdate_zero = \<lparr>SecurityCfg = 0, Raw = None, OtherFields = 0\<rparr>"

text \<open>
  \<open>ClusterResourceData\<close>. The embedded interface field is never set nor read in this
  file and is left out.
\<close>

record ('sc, 'f) ClusterResourceData =
  Resource :: "('sc, 'f) ClusterUpdate"

text \<open>
  A value of the interface type \<open>ResourceData\<close>: the nil interface, a
  \<open>*ClusterResourceData\<close> (a pointer, which may itself be nil), or a value of another
  implementing type, of which only the result of its \<open>Raw()\<close> method is seen here.
\<close>

datatype ('sc, 'f) ResourceData =
    ResourceData_nil
  | ResourceData_Cluster "('sc, 'f) ClusterResourceData option"
  | ResourceData_other "Any option"

record ('sc, 'f) DecodeResult =
  Name :: string
  dr_Resource :: "('sc, 'f) ResourceData"

record 'bc DecodeOptions =
  BootstrapConfig :: 'bc

text \<open>
  \<open>Decode\<close>. The two functions it calls, \<open>unmarshalClusterResource\<close> and
  \<open>securityConfigValidator\<close>, are defined in other files and are parameters here. The
  first returns a name, a cluster and an error. \<open>opts\<close> is a pointer, dereferenced only
  when the validator is called.
\<close>

definition Decode ::
  "(Any option \<Rightarrow> string \<times> ('sc::zero, 'f::zero) ClusterUpdate \<times> error option) \<Rightarrow>
   ('bc \<Rightarrow> 'sc \<Rightarrow> error option) \<Rightarrow>
   'bc DecodeOptions option \<Rightarrow> Any option \<Rightarrow>
   panic + (('sc, 'f) DecodeResult option \<times> error option)" where
  "Decode unmarshalClusterResource securityConfigValidator opts resource =
     (case unmarshalClusterResource resource of (name, cluster, err) \<Rightarrow>
        if name = [] then Inr (None, err)
        else if err \<noteq> None then
          Inr (Some \<lparr>Name = name,
                     dr_Resource = ResourceData_Cluster (Some \<lparr>Resource = ClusterUpdate_zero\<rparr>)\<rparr>,
               err)
        else
          (case opts of
             None \<Rightarrow> Inl NilPointerDereference
           | Some o' \<Rightarrow>
               (case securityConfigValidator (BootstrapConfig o') (SecurityCfg cluster) of
                  Some err' \<Rightarrow>
                    Inr (Some \<lparr>Name = name,
                               dr_Resource =
                                 ResourceData_Cluster (Some \<lparr>Resource = ClusterUpdate_zero\<rparr>)\<rparr>,
                         Some err')
                | None \<Rightarrow>
                    Inr (Some \<lparr>Name = name,
                               dr_Resource = ResourceData_Cluster (Some \<lparr>Resource = cluster\<rparr>)\<rparr>,
                         None))))"

text \<open>\<open>Raw\<close> of \<open>*ClusterResourceData\<close> reads through the receiver.\<close>

definition ClusterResourceData_Raw :: "('sc, 'f) ClusterResourceData option \<Rightarrow> panic + Any option" where
  "ClusterResourceData_Raw c =
     (case c of None \<Rightarrow> Inl NilPointerDereference | Some d \<Rightarrow> Inr (Raw (Resource d)))"

text \<open>The method call \<open>other.Raw()\<close> on an interface value.\<close>

definition ResourceData_Raw :: "('sc, 'f) ResourceData \<Rightarrow> panic + Any option" where
  "ResourceData_Raw other =
     (case other of
        ResourceData_nil \<Rightarrow> Inl NilPointerDereference
      | ResourceData_Cluster c \<Rightarrow> ClusterResourceData_Raw c
      | ResourceData_other raw \<Rightarrow> Inr raw)"

text \<open>
  \<open>Equal\<close>. The receiver \<open>c\<close> is a pointer and \<open>other\<close> an interface value;
  \<open>other == nil\<close> holds of the nil interface only.
\<close>

definition Equal :: "('sc, 'f) ClusterResourceData option \<Rightarrow> ('sc, 'f) ResourceData \<Rightarrow> panic + bool" where
  "Equal c other =
     (if c = None \<and> other = ResourceData_nil then Inr True
      else if (c = None) \<noteq> (other = ResourceData_nil) then Inr False
      else
        (case ClusterResourceData_Raw c of
           Inl p \<Rightarrow> Inl p
         | Inr raw \<Rightarrow>
             (case ResourceData_Raw other of
                Inl p \<Rightarrow> Inl p
              | Inr raw' \<Rightarrow> Inr (proto_Equal raw raw'))))"

section \<open>The delegating watcher\<close>

text \<open>
  A \<open>ClusterWatcher\<close> is three callbacks; what a callback does is a change of the
  watcher's state \<open>'s\<close>.
\<close>

record ('sc, 'f, 's) ClusterWatcher =
  cw_OnUpdate :: "('sc, 'f) ClusterResourceData option \<Rightarrow> 's \<Rightarrow> 's"
  cw_OnError :: "error option \<Rightarrow> 's \<Rightarrow> 's"
  cw_OnResourceDoesNotExist :: "'s \<Rightarrow> 's"

record ('sc, 'f, 's) delegatingClusterWatcher =
  watcher :: "('sc, 'f, 's) ClusterWatcher"

text \<open>
  \<open>OnUpdate\<close>: the type assertion \<open>data.(*ClusterResourceData)\<close> in its one-result
  form panics unless the dynamic type of \<open>data\<close> is \<open>*ClusterResourceData\<close>.
\<close>

definition OnUpdate ::
  "('sc, 'f, 's) delegatingClusterWatcher \<Rightarrow> ('sc, 'f) ResourceData \<Rightarrow> 's \<Rightarrow> panic + 's" where
  "OnUpdate d data s =
     (case data of
        ResourceData_Cluster c \<Rightarrow> Inr (cw_OnUpdate (watcher d) c s)
      | _ \<Rightarrow> Inl InterfaceConversion)"

definition OnError :: "('sc, 'f, 's) delegatingClusterWatcher \<Rightarrow> error option \<Rightarrow> 's \<Rightarrow> 's" where
  "OnError d err s = cw_OnError (watcher d) err s"

definition OnResourceDoesNotExist :: "('sc, 'f, 's) delegatingClusterWatcher \<Rightarrow> 's \<Rightarrow> 's" where
  "OnResourceDoesNotExist d s = cw_OnResourceDoesNotExist (watcher d) s"

section \<open>What one iteration builds\<close>

text \<open>
  The element that one iteration of \<open>parseEndpoints\<close> appends for an endpoint, and the
  one that an iteration of the locality loop appends for an entry whose locality is \<open>l\<close>.
  The loops are compared with maps of these below.
\<close>

definition endpoint_of :: "LbEndpoint option \<Rightarrow> Endpoint" where
  "endpoint_of lbEndpoint =
     (let sa = Address_GetSocketAddress (Endpoint_GetAddress (LbEndpoint_GetEndpoint lbEndpoint))
      in \<lparr>HealthStatus = LbEndpoint_GetHealthStatus lbEndpoint,
          Address = JoinHostPort (SocketAddress_GetAddress sa)
                      (Itoa (uint (SocketAddress_GetPortValue sa))),
          ep_Weight = UInt32Value_GetValue (LbEndpoint_GetLoadBalancingWeight lbEndpoint)\<rparr>)"

definition locality_of :: "LocalityLbEndpoints option \<Rightarrow> Locality" where
  "locality_of locality =
     (let l = the (LocalityLbEndpoints_GetLocality locality)
      in \<lparr>ID = \<lparr>lid_Region = Region l, lid_Zone = Zone l, lid_SubZone = SubZone l\<rparr>,
          loc_Endpoints = map endpoint_of (LocalityLbEndpoints_GetLbEndpoints locality),
          Weight = UInt32Value_GetValue (LocalityLbEndpoints_GetLoadBalancingWeight locality),
          Priority = LocalityLbEndpoints_GetPriority locality\<rparr>)"

text \<open>The priorities that the entries of a message declare.\<close>

definition declared_priorities :: "ClusterLoadAssignment \<Rightarrow> uint32 set" where
  "declared_priorities msg = LocalityLbEndpoints_GetPriority ` set (Endpoints msg)"

section \<open>Example messages\<close>

text \<open>
  Messages in the shape of the specification's scenarios, used to run the parser: an entry
  with one endpoint at \<open>10.0.0.1:8080\<close>, with or without a locality, at a given priority.
\<close>

definition example_endpoint :: "LbEndpoint option" where
  "example_endpoint =
     Some \<lparr>lbe_HostIdentifier =
             Some (LbEndpoint_Endpoint
               (Some \<lparr>ep_Address =
                  Some \<lparr>addr_Address =
                    Some (Address_SocketAddress
                      (Some \<lparr>sa_Address = ''10.0.0.1'',
                              sa_PortSpecifier = Some (SocketAddress_PortValue 8080)\<rparr>))\<rparr>\<rparr>)),
           lbe_HealthStatus = 1,
           lbe_LoadBalancingWeight = Some 3\<rparr>"

definition example_entry :: "Locality_pb option \<Rightarrow> uint32 \<Rightarrow> LocalityLbEndpoints option" where
  "example_entry l p =
     Some \<lparr>lle_Locality = l, lle_LbEndpoints = [example_endpoint],
           lle_LoadBalancingWeight = Some 5, lle_Priority = p\<rparr>"

definition example_locality :: "Locality_pb option" where
  "example_locality = Some \<lparr>Region = ''r'', Zone = ''z'', SubZone = ''s''\<rparr>"

text \<open>Scenario A with the drop policy of scenario C: priorities 0 and 1.\<close>

definition scenario_A :: ClusterLoadAssignment where
  "scenario_A =
     \<lparr>Endpoints = [example_entry example_locality 0, example_entry example_locality 1],
      Policy = Some \<lparr>pol_DropOverloads =
        [Some \<lparr>do_Category = ''lb'',
               do_DropPercentage = Some \<lparr>fp_Numerator = 50,
                                          fp_Denominator = FractionalPercent_HUNDRED\<rparr>\<rparr>]\<rparr>\<rparr>"

text \<open>Scenario B: priorities 0 and 2, a gap at 1.\<close>

definition scenario_B :: ClusterLoadAssignment where
  "scenario_B =
     \<lparr>Endpoints = [example_entry example_locality 0, example_entry example_locality 2],
      Policy = None\<rparr>"

text \<open>Two entries at priority 0 and one at priority 1.\<close>

definition scenario_duplicates :: ClusterLoadAssignment where
  "scenario_duplicates =
     \<lparr>Endpoints = [example_entry example_locality 0, example_entry example_locality 0,
                   example_entry example_locality 1],
      Policy = None\<rparr>"

text \<open>Scenario B followed by an entry without a locality, also at priority 2.\<close>

definition scenario_no_ID :: ClusterLoadAssignment where
  "scenario_no_ID =
     \<lparr>Endpoints = [example_entry example_locality 0, example_entry example_locality 2,
                   example_entry None 2],
      Policy = None\<rparr>"

section \<open>Example collaborators\<close>

text \<open>
  Stand-ins for the two functions that \<open>Decode\<close> takes as parameters, used to run it.
  For the first, a nil envelope or one with another type URL gives no name; an envelope
  without payload gives a name and a validation error; otherwise the first byte is the
  security setting. The second accepts a setting up to the level in the bootstrap
  configuration.
\<close>

definition example_unmarshal :: "Any option \<Rightarrow> string \<times> (nat, nat) ClusterUpdate \<times> error option" where
  "example_unmarshal resource =
     (case resource of
        None \<Rightarrow> ([], ClusterUpdate_zero, Some (Errorf ''failed to unwrap resource'' []))
      | Some a \<Rightarrow>
          if TypeUrl a \<noteq> typeURL (state clusterType) then
            ([], ClusterUpdate_zero,
             Some (Errorf ''unexpected resource type: %q '' [Operand_string (TypeUrl a)]))
          else
            (case Value a of
               [] \<Rightarrow> (''empty'', ClusterUpdate_zero, Some (Errorf ''no payload'' []))
             | b # bs \<Rightarrow>
                 (''cluster'',
                  \<lparr>SecurityCfg = unat b, Raw = Some a, OtherFields = length bs\<rparr>, None)))"

definition example_validator :: "nat \<Rightarrow> nat \<Rightarrow> error option" where
  "example_validator bc sc =
     (if sc \<le> bc then None
      else Some (Errorf ''security level %v not allowed'' [Operand_int (int sc)]))"

definition example_envelope :: "8 word list \<Rightarrow> Any option" where
  "example_envelope bytes =
     Some \<lparr>TypeUrl = ''type.googleapis.com/envoy.config.cluster.v3.Cluster'', Value = bytes\<rparr>"

text \<open>A watcher that records the updates it is given, latest first.\<close>

definition example_watcher ::
  "(nat, nat, (nat, nat) ClusterResourceData option list) ClusterWatcher" where
  "example_watcher =
     \<lparr>cw_OnUpdate = (\<lambda>c s. c # s), cw_OnError = (\<lambda>e s. s),
      cw_OnResourceDoesNotExist = (\<lambda>s. s)\<rparr>"

section \<open>The loops as maps\<close>

lemma priorities_loop_None:
  "priorities_loop i P = None \<longleftrightarrow> (\<forall>j. i \<le> j \<and> j < card P \<longrightarrow> word_of_nat j \<in> P)"
proof (induction i P rule: priorities_loop.induct)
  case (1 i P)
  show ?case
  proof (cases "i < card P")
    case False
    then show ?thesis by (auto simp add: priorities_loop.simps [of i P])
  next
    case lt: True
    show ?thesis
    proof (cases "word_of_nat i \<in> P")
      case False
      with lt show ?thesis by (auto simp add: priorities_loop.simps [of i P])
    next
      case True
      have "(\<forall>j. i \<le> j \<and> j < card P \<longrightarrow> word_of_nat j \<in> P) \<longleftrightarrow>
            (\<forall>j. Suc i \<le> j \<and> j < card P \<longrightarrow> word_of_nat j \<in> P)"
        using True by (metis Suc_leI le_neq_implies_less Suc_leD)
      with lt True "1.IH" show ?thesis by (simp add: priorities_loop.simps [of i P])
    qed
  qed
qed

lemma priorities_loop_Some:
  "priorities_loop i P = Some e \<Longrightarrow>
     \<exists>j. i \<le> j \<and> j < card P \<and> word_of_nat j \<notin> P \<and>
         (\<forall>k. i \<le> k \<and> k < j \<longrightarrow> word_of_nat k \<in> P) \<and>
         e = Errorf ''priority %v missing (with different priorities %v received)''
               [Operand_int (int j), Operand_priorities P]"
proof (induction i P rule: priorities_loop.induct)
  case (1 i P)
  show ?case
  proof (cases "i < card P")
    case False
    with "1.prems" show ?thesis by (simp add: priorities_loop.simps [of i P])
  next
    case lt: True
    show ?thesis
    proof (cases "word_of_nat i \<in> P")
      case False
      with lt "1.prems" have "e = Errorf ''priority %v missing (with different priorities %v received)''
               [Operand_int (int i), Operand_priorities P]"
        by (simp add: priorities_loop.simps [of i P])
      with lt False show ?thesis by (intro exI [of _ i]) auto
    next
      case True
      with lt "1.prems" have "priorities_loop (Suc i) P = Some e"
        by (simp add: priorities_loop.simps [of i P])
      from "1.IH" [OF lt True this] obtain j where j: "Suc i \<le> j" "j < card P" "word_of_nat j \<notin> P"
         "\<forall>k. Suc i \<le> k \<and> k < j \<longrightarrow> word_of_nat k \<in> P"
         "e = Errorf ''priority %v missing (with different priorities %v received)''
               [Operand_int (int j), Operand_priorities P]" by blast
      have "\<forall>k. i \<le> k \<and> k < j \<longrightarrow> word_of_nat k \<in> P"
        using True j(4) by (metis Suc_leI le_neq_implies_less)
      with j show ?thesis by (intro exI [of _ j]) auto
    qed
  qed
qed

lemma card_uint32_le: "card (P :: uint32 set) \<le> 2 ^ 32"
proof -
  have "card P \<le> card (UNIV :: uint32 set)" by (rule card_mono) auto
  then show ?thesis by (simp add: card_word)
qed

lemma contiguous_iff:
  fixes P :: "uint32 set"
  shows "(\<forall>j<card P. word_of_nat j \<in> P) \<longleftrightarrow> unat ` P = {0..<card P}"
proof
  assume all: "\<forall>j<card P. word_of_nat j \<in> P"
  let ?S = "(word_of_nat :: nat \<Rightarrow> uint32) ` {0..<card P}"
  have bound: "card P \<le> 2 ^ 32" by (rule card_uint32_le)
  have un: "unat (word_of_nat j :: uint32) = j" if "j < card P" for j
    using that bound by (simp add: unat_of_nat)
  have inj: "inj_on (word_of_nat :: nat \<Rightarrow> uint32) {0..<card P}"
    by (rule inj_on_inverseI [where g = unat]) (simp add: un)
  have "card ?S = card P" using inj by (simp add: card_image)
  moreover have "?S \<subseteq> P" using all by auto
  ultimately have "?S = P" by (simp add: card_subset_eq)
  then have "unat ` P = unat ` ?S" by simp
  also have "\<dots> = {0..<card P}" by (force simp: un image_iff)
  finally show "unat ` P = {0..<card P}" .
next
  assume eq: "unat ` P = {0..<card P}"
  show "\<forall>j<card P. word_of_nat j \<in> P"
  proof (intro allI impI)
    fix j assume "j < card P"
    then have "j \<in> unat ` P" using eq by simp
    then obtain w where "w \<in> P" "j = unat w" by auto
    then show "word_of_nat j \<in> P" by simp
  qed
qed


lemma parseEndpoints_loop_map:
  "parseEndpoints_loop lbEndpoints endpoints = endpoints @ map endpoint_of lbEndpoints"
  by (induction lbEndpoints arbitrary: endpoints)
     (simp_all add: endpoint_of_def parseAddress_def EndpointHealthStatus_def Let_def)

lemma parseEndpoints_map: "parseEndpoints lbEndpoints = map endpoint_of lbEndpoints"
  by (simp add: parseEndpoints_def parseEndpoints_loop_map)

lemma drops_loop_map:
  "drops_loop ds ret = ret\<lparr>Drops := Drops ret @ map parseDropPolicy ds\<rparr>"
  by (induction ds arbitrary: ret) simp_all

lemma localities_loop_ok:
  "\<forall>x\<in>set ls. LocalityLbEndpoints_GetLocality x \<noteq> None \<Longrightarrow>
   localities_loop ls P ret =
     Inr (P \<union> LocalityLbEndpoints_GetPriority ` set ls,
          ret\<lparr>Localities := Localities ret @ map locality_of ls\<rparr>)"
proof (induction ls arbitrary: P ret)
  case Nil
  then show ?case by simp
next
  case (Cons x xs)
  from Cons.prems obtain l where l: "LocalityLbEndpoints_GetLocality x = Some l" by auto
  from Cons.prems have "\<forall>y\<in>set xs. LocalityLbEndpoints_GetLocality y \<noteq> None" by simp
  note IH = Cons.IH [OF this]
  show ?case
    by (simp add: l IH Let_def locality_of_def parseEndpoints_map)
qed

lemma localities_loop_abort:
  "\<forall>x\<in>set pre. LocalityLbEndpoints_GetLocality x \<noteq> None \<Longrightarrow>
   LocalityLbEndpoints_GetLocality y = None \<Longrightarrow>
   localities_loop (pre @ y # post) P ret =
     Inl (Errorf ''EDS response contains a locality without ID, locality: %+v''
            [Operand_locality y])"
proof (induction pre arbitrary: P ret)
  case Nil
  then show ?case by simp
next
  case (Cons x xs)
  from Cons.prems obtain l where l: "LocalityLbEndpoints_GetLocality x = Some l" by auto
  from Cons.prems have "\<forall>z\<in>set xs. LocalityLbEndpoints_GetLocality z \<noteq> None" by simp
  note IH = Cons.IH [OF this Cons.prems(2)]
  show ?case by (simp add: l IH Let_def)
qed

lemma first_without_ID:
  "x \<in> set ls \<Longrightarrow> LocalityLbEndpoints_GetLocality x = None \<Longrightarrow>
   \<exists>pre y post. ls = pre @ y # post \<and>
     (\<forall>z\<in>set pre. LocalityLbEndpoints_GetLocality z \<noteq> None) \<and>
     LocalityLbEndpoints_GetLocality y = None"
proof -
  assume "x \<in> set ls" "LocalityLbEndpoints_GetLocality x = None"
  then have "\<exists>z\<in>set ls. LocalityLbEndpoints_GetLocality z = None" by blast
  from split_list_first_prop [OF this] show ?thesis by blast
qed

lemma localities_loop_Inr:
  assumes "localities_loop ls P ret = Inr (P', ret')"
  shows "\<forall>x\<in>set ls. LocalityLbEndpoints_GetLocality x \<noteq> None"
proof (rule ccontr)
  assume "\<not> (\<forall>x\<in>set ls. LocalityLbEndpoints_GetLocality x \<noteq> None)"
  then obtain x where "x \<in> set ls" "LocalityLbEndpoints_GetLocality x = None" by blast
  from first_without_ID [OF this] obtain pre y post where
    "ls = pre @ y # post" "\<forall>z\<in>set pre. LocalityLbEndpoints_GetLocality z \<noteq> None"
    "LocalityLbEndpoints_GetLocality y = None" by blast
  with localities_loop_abort [of pre y post P ret] assms show False by simp
qed


lemma parseEDSRespProto_all_IDs:
  assumes "\<forall>x\<in>set (Endpoints msg). LocalityLbEndpoints_GetLocality x \<noteq> None"
  shows "parseEDSRespProto (Some msg) =
     (case priorities_loop 0 (declared_priorities msg) of
        Some err \<Rightarrow> Inr (EndpointsUpdate_zero, Some err)
      | None \<Rightarrow>
          Inr (\<lparr>Drops = map parseDropPolicy (Policy_GetDropOverloads (Policy msg)),
                Localities = map locality_of (Endpoints msg)\<rparr>, None))"
  by (simp add: parseEDSRespProto_def localities_loop_ok [OF assms] drops_loop_map
      declared_priorities_def EndpointsUpdate_zero_def ClusterLoadAssignment_GetPolicy_def
      split: option.split)

lemma parseEDSRespProto_abort:
  assumes "Endpoints msg = pre @ y # post"
    and "\<forall>z\<in>set pre. LocalityLbEndpoints_GetLocality z \<noteq> None"
    and "LocalityLbEndpoints_GetLocality y = None"
  shows "parseEDSRespProto (Some msg) =
     Inr (EndpointsUpdate_zero,
          Some (Errorf ''EDS response contains a locality without ID, locality: %+v''
                  [Operand_locality y]))"
  by (simp add: parseEDSRespProto_def assms(1) localities_loop_abort [OF assms(2,3)])

lemma parseEDSRespProto_nil_error_IDs:
  assumes "parseEDSRespProto (Some msg) = Inr (u, None)"
  shows "\<forall>x\<in>set (Endpoints msg). LocalityLbEndpoints_GetLocality x \<noteq> None"
proof -
  from assms obtain P ret where
    "localities_loop (Endpoints msg) {}
       (drops_loop (Policy_GetDropOverloads (ClusterLoadAssignment_GetPolicy (Some msg)))
          EndpointsUpdate_zero) = Inr (P, ret)"
    by (auto simp: parseEDSRespProto_def Let_def split: sum.splits option.splits)
  then show ?thesis by (rule localities_loop_Inr)
qed

lemma Itoa_8080: "Itoa 8080 = ''8080''"
  by (simp add: Itoa_def decimal.simps digit_char_def)

lemma example_entry_simps:
  "LocalityLbEndpoints_GetLocality (example_entry l p) = l"
  "LocalityLbEndpoints_GetPriority (example_entry l p) = p"
  "LocalityLbEndpoints_GetLbEndpoints (example_entry l p) = [example_endpoint]"
  "LocalityLbEndpoints_GetLoadBalancingWeight (example_entry l p) = Some 5"
  by (simp_all add: example_entry_def LocalityLbEndpoints_GetLocality_def
      LocalityLbEndpoints_GetPriority_def LocalityLbEndpoints_GetLbEndpoints_def
      LocalityLbEndpoints_GetLoadBalancingWeight_def)

lemma endpoint_of_example:
  "endpoint_of example_endpoint = \<lparr>HealthStatus = 1, Address = ''10.0.0.1:8080'', ep_Weight = 3\<rparr>"
  by (simp add: endpoint_of_def example_endpoint_def LbEndpoint_GetEndpoint_def
      Endpoint_GetAddress_def Address_GetSocketAddress_def SocketAddress_GetAddress_def
      SocketAddress_GetPortValue_def LbEndpoint_GetHealthStatus_def
      LbEndpoint_GetLoadBalancingWeight_def UInt32Value_GetValue_def JoinHostPort_def Itoa_8080)

lemma locality_of_example:
  "locality_of (example_entry example_locality p) =
     \<lparr>ID = \<lparr>lid_Region = ''r'', lid_Zone = ''z'', lid_SubZone = ''s''\<rparr>,
      loc_Endpoints = [\<lparr>HealthStatus = 1, Address = ''10.0.0.1:8080'', ep_Weight = 3\<rparr>],
      Weight = 5, Priority = p\<rparr>"
  by (simp add: locality_of_def example_entry_simps endpoint_of_example example_locality_def
      UInt32Value_GetValue_def)

lemma parse_scenario_A:
  "parseEDSRespProto (Some scenario_A) =
     Inr (\<lparr>Drops = [\<lparr>Category = ''lb'', Numerator = 50, Denominator = 100\<rparr>],
           Localities =
             [\<lparr>ID = \<lparr>lid_Region = ''r'', lid_Zone = ''z'', lid_SubZone = ''s''\<rparr>,
               loc_Endpoints = [\<lparr>HealthStatus = 1, Address = ''10.0.0.1:8080'', ep_Weight = 3\<rparr>],
               Weight = 5, Priority = 0\<rparr>,
              \<lparr>ID = \<lparr>lid_Region = ''r'', lid_Zone = ''z'', lid_SubZone = ''s''\<rparr>,
               loc_Endpoints = [\<lparr>HealthStatus = 1, Address = ''10.0.0.1:8080'', ep_Weight = 3\<rparr>],
               Weight = 5, Priority = 1\<rparr>]\<rparr>, None)"
proof -
  have ids: "\<forall>x\<in>set (Endpoints scenario_A). LocalityLbEndpoints_GetLocality x \<noteq> None"
    by (simp add: scenario_A_def example_entry_simps example_locality_def)
  have P: "declared_priorities scenario_A = {0, 1}"
    by (simp add: declared_priorities_def scenario_A_def example_entry_simps)
  have "\<forall>j. 0 \<le> j \<and> j < card {0, 1 :: uint32} \<longrightarrow> word_of_nat j \<in> {0, 1 :: uint32}"
    by (auto simp: less_Suc_eq numeral_2_eq_2)
  then have loop: "priorities_loop 0 {0, 1} = None"
    by (simp only: priorities_loop_None)
  show ?thesis
    by (simp add: parseEDSRespProto_all_IDs [OF ids] P loop)
       (simp add: scenario_A_def locality_of_example Policy_GetDropOverloads_def
          parseDropPolicy_def DropOverload_GetDropPercentage_def DropOverload_GetCategory_def
          FractionalPercent_GetNumerator_def FractionalPercent_GetDenominator_def)
qed

section \<open>Equality of cluster resource data\<close>

lemma proto_Equal_iff: "proto_Equal x y \<longleftrightarrow> x = y"
  by (cases x; cases y) auto

lemma Equal_Some_Cluster:
  "Equal (Some a) (ResourceData_Cluster (Some b)) = Inr (Raw (Resource a) = Raw (Resource b))"
  by (simp add: Equal_def ClusterResourceData_Raw_def ResourceData_Raw_def proto_Equal_iff)

lemma Decode_result_Cluster:
  assumes "Decode u v opts r = Inr (Some d, e)"
  shows "\<exists>c. dr_Resource d = ResourceData_Cluster (Some c) \<and>
             (e \<noteq> None \<longrightarrow> Resource c = ClusterUpdate_zero)"
  using assms
  by (auto simp: Decode_def split: prod.splits if_splits option.splits)

text \<open>
  Claim C9. The type URL of the cluster resource type is the string
  \<open>type.googleapis.com/envoy.config.cluster.v3.Cluster\<close>. It is a field of the constant
  \<open>clusterType\<close>, which takes no argument, so no call can change it.
\<close>

theorem clusterType_typeURL:
  "typeURL (state clusterType) = ''type.googleapis.com/envoy.config.cluster.v3.Cluster''"
  by (simp add: clusterType_def)

text \<open>
  \<open>Equal\<close> where the argument is the nil interface or holds a pointer that is not nil:
  true on two nils, false when exactly one side is nil, and on two cluster resource data
  true exactly when their raw envelopes are the same (both nil, or the same type URL and
  bytes). The last equation shows that the decoded fields play no part: changing them in
  \<open>b\<close> does not change the answer.
\<close>

lemma Equal_cases:
  "Equal None ResourceData_nil = Inr True \<and>
   Equal None (ResourceData_Cluster (Some b)) = Inr False \<and>
   Equal (Some a) ResourceData_nil = Inr False \<and>
   Equal (Some a) (ResourceData_Cluster (Some b)) = Inr (Raw (Resource a) = Raw (Resource b)) \<and>
   Equal (Some a)
     (ResourceData_Cluster (Some (b\<lparr>Resource := (Resource b)\<lparr>SecurityCfg := s, OtherFields := f\<rparr>\<rparr>))) =
     Equal (Some a) (ResourceData_Cluster (Some b))"
  by (simp add: Equal_Some_Cluster) (simp add: Equal_def)

text \<open>
  Claim C4 says that \<open>Equal\<close> is true when both sides are nil and false when exactly one
  is. When the argument is a nil \<open>*ClusterResourceData\<close>, the interface value that
  carries it is not the nil interface, so \<open>other == nil\<close> is false: with a nil receiver
  the second test answers false although both pointers are nil, and with a receiver that
  is not nil the call \<open>other.Raw()\<close> reads through the nil pointer and panics.
\<close>

theorem Equal_nil_pointer_argument:
  "Equal None (ResourceData_Cluster None) = Inr False \<and>
   Equal (Some a) (ResourceData_Cluster None) = Inl NilPointerDereference"
  by (simp add: Equal_def ClusterResourceData_Raw_def ResourceData_Raw_def)

section \<open>The drop policy\<close>

text \<open>
  Claim C6. \<open>parseDropPolicy\<close> maps the unit tag \<open>HUNDRED\<close> to 100, \<open>TEN_THOUSAND\<close> to
  10000 and \<open>MILLION\<close> to 1000000, gives the denominator 0 for every other tag, and copies
  the category and the numerator.
\<close>

theorem parseDropPolicy_mapping:
  "(FractionalPercent_GetDenominator (DropOverload_GetDropPercentage p) = FractionalPercent_HUNDRED
      \<longrightarrow> Denominator (parseDropPolicy p) = 100) \<and>
   (FractionalPercent_GetDenominator (DropOverload_GetDropPercentage p) = FractionalPercent_TEN_THOUSAND
      \<longrightarrow> Denominator (parseDropPolicy p) = 10000) \<and>
   (FractionalPercent_GetDenominator (DropOverload_GetDropPercentage p) = FractionalPercent_MILLION
      \<longrightarrow> Denominator (parseDropPolicy p) = 1000000) \<and>
   (FractionalPercent_GetDenominator (DropOverload_GetDropPercentage p) \<notin>
      {FractionalPercent_HUNDRED, FractionalPercent_TEN_THOUSAND, FractionalPercent_MILLION}
      \<longrightarrow> Denominator (parseDropPolicy p) = 0) \<and>
   Category (parseDropPolicy p) = DropOverload_GetCategory p \<and>
   Numerator (parseDropPolicy p) = FractionalPercent_GetNumerator (DropOverload_GetDropPercentage p)"
  by (simp add: parseDropPolicy_def Let_def FractionalPercent_HUNDRED_def
      FractionalPercent_TEN_THOUSAND_def FractionalPercent_MILLION_def)

text \<open>
  The policy of scenario C and its variants with the two other units and with the
  unnamed tag 7.
\<close>

theorem parseDropPolicy_mapping_witness:
  "parseDropPolicy (Some \<lparr>do_Category = ''lb'', do_DropPercentage =
       Some \<lparr>fp_Numerator = 50, fp_Denominator = FractionalPercent_HUNDRED\<rparr>\<rparr>) =
     \<lparr>Category = ''lb'', Numerator = 50, Denominator = 100\<rparr> \<and>
   Denominator (parseDropPolicy (Some \<lparr>do_Category = ''lb'', do_DropPercentage =
       Some \<lparr>fp_Numerator = 50, fp_Denominator = FractionalPercent_TEN_THOUSAND\<rparr>\<rparr>)) = 10000 \<and>
   Denominator (parseDropPolicy (Some \<lparr>do_Category = ''lb'', do_DropPercentage =
       Some \<lparr>fp_Numerator = 50, fp_Denominator = FractionalPercent_MILLION\<rparr>\<rparr>)) = 1000000 \<and>
   Denominator (parseDropPolicy (Some \<lparr>do_Category = ''lb'', do_DropPercentage =
       Some \<lparr>fp_Numerator = 50, fp_Denominator = 7\<rparr>\<rparr>)) = 0"
proof -
  let ?p = "\<lambda>t. Some \<lparr>do_Category = ''lb'', do_DropPercentage =
       Some \<lparr>fp_Numerator = 50, fp_Denominator = t\<rparr>\<rparr>"
  have tag: "FractionalPercent_GetDenominator (DropOverload_GetDropPercentage (?p t)) = t" for t
    by (simp add: FractionalPercent_GetDenominator_def DropOverload_GetDropPercentage_def)
  have get: "DropOverload_GetCategory (?p t) = ''lb''"
      "FractionalPercent_GetNumerator (DropOverload_GetDropPercentage (?p t)) = 50" for t
    by (simp_all add: DropOverload_GetCategory_def FractionalPercent_GetNumerator_def
        DropOverload_GetDropPercentage_def)
  have other: "(7 :: int32) \<notin>
      {FractionalPercent_HUNDRED, FractionalPercent_TEN_THOUSAND, FractionalPercent_MILLION}"
    by (simp add: FractionalPercent_HUNDRED_def FractionalPercent_TEN_THOUSAND_def
        FractionalPercent_MILLION_def)
  have "Denominator (parseDropPolicy (?p FractionalPercent_HUNDRED)) = 100"
       "Category (parseDropPolicy (?p FractionalPercent_HUNDRED)) = ''lb''"
       "Numerator (parseDropPolicy (?p FractionalPercent_HUNDRED)) = 50"
    using parseDropPolicy_mapping [of "?p FractionalPercent_HUNDRED"] by (simp_all add: tag get)
  moreover have "Denominator (parseDropPolicy (?p FractionalPercent_TEN_THOUSAND)) = 10000"
    using parseDropPolicy_mapping [of "?p FractionalPercent_TEN_THOUSAND"] by (simp add: tag)
  moreover have "Denominator (parseDropPolicy (?p FractionalPercent_MILLION)) = 1000000"
    using parseDropPolicy_mapping [of "?p FractionalPercent_MILLION"] by (simp add: tag)
  moreover have "Denominator (parseDropPolicy (?p 7)) = 0"
    using parseDropPolicy_mapping [of "?p 7"] other by (simp add: tag)
  ultimately show ?thesis by (simp add: OverloadDropConfig.equality)
qed

section \<open>Decoding a cluster\<close>

lemma example_unmarshal_simps:
  "example_unmarshal None = ([], ClusterUpdate_zero, Some (Errorf ''failed to unwrap resource'' []))"
  "example_unmarshal (example_envelope []) =
     (''empty'', ClusterUpdate_zero, Some (Errorf ''no payload'' []))"
  "example_unmarshal (example_envelope (b # bs)) =
     (''cluster'',
      \<lparr>SecurityCfg = unat b, Raw = example_envelope (b # bs), OtherFields = length bs\<rparr>, None)"
  by (simp_all add: example_unmarshal_def example_envelope_def clusterType_def)

lemma Decode_example_invalid:
  "Decode example_unmarshal example_validator opts (example_envelope []) =
     Inr (Some \<lparr>Name = ''empty'',
                dr_Resource = ResourceData_Cluster (Some \<lparr>Resource = ClusterUpdate_zero\<rparr>)\<rparr>,
          Some (Errorf ''no payload'' []))"
  by (simp add: Decode_def example_unmarshal_simps)

lemma Decode_example_rejected:
  "Decode example_unmarshal example_validator (Some \<lparr>BootstrapConfig = 5\<rparr>) (example_envelope [9]) =
     Inr (Some \<lparr>Name = ''cluster'',
                dr_Resource = ResourceData_Cluster (Some \<lparr>Resource = ClusterUpdate_zero\<rparr>)\<rparr>,
          Some (Errorf ''security level %v not allowed'' [Operand_int 9]))"
  by (simp add: Decode_def example_unmarshal_simps example_validator_def)

lemma Decode_example_valid:
  "Decode example_unmarshal example_validator (Some \<lparr>BootstrapConfig = 5\<rparr>) (example_envelope [3, 1]) =
     Inr (Some \<lparr>Name = ''cluster'',
                dr_Resource = ResourceData_Cluster
                  (Some \<lparr>Resource = \<lparr>SecurityCfg = 3, Raw = example_envelope [3, 1],
                                      OtherFields = 1\<rparr>\<rparr>)\<rparr>,
          None)"
  by (simp add: Decode_def example_unmarshal_simps example_validator_def)

text \<open>
  The outcomes of \<open>Decode\<close>, for every result \<open>(name, cluster, err)\<close> of
  \<open>unmarshalClusterResource\<close> on the envelope. With an empty name no \<open>DecodeResult\<close>
  is returned, only \<open>err\<close>. With a name and an error of the unmarshalling step, or with a
  name and an error of the security-config check, the result carries the name and the zero
  \<open>ClusterUpdate\<close>, together with that error. With a name and no error from either, the
  result carries the name and the decoded cluster, and the error is nil.
\<close>

lemma Decode_outcomes:
  assumes "unmarshalClusterResource resource = (name, cluster, err)"
  shows
    "(name = [] \<longrightarrow>
        Decode unmarshalClusterResource securityConfigValidator opts resource = Inr (None, err)) \<and>
     (name \<noteq> [] \<and> err \<noteq> None \<longrightarrow>
        Decode unmarshalClusterResource securityConfigValidator opts resource =
          Inr (Some \<lparr>Name = name,
                     dr_Resource = ResourceData_Cluster (Some \<lparr>Resource = ClusterUpdate_zero\<rparr>)\<rparr>,
               err)) \<and>
     (name \<noteq> [] \<and> err = None \<and>
      securityConfigValidator (BootstrapConfig o') (SecurityCfg cluster) = Some e \<longrightarrow>
        Decode unmarshalClusterResource securityConfigValidator (Some o') resource =
          Inr (Some \<lparr>Name = name,
                     dr_Resource = ResourceData_Cluster (Some \<lparr>Resource = ClusterUpdate_zero\<rparr>)\<rparr>,
               Some e)) \<and>
     (name \<noteq> [] \<and> err = None \<and>
      securityConfigValidator (BootstrapConfig o') (SecurityCfg cluster) = None \<longrightarrow>
        Decode unmarshalClusterResource securityConfigValidator (Some o') resource =
          Inr (Some \<lparr>Name = name,
                     dr_Resource = ResourceData_Cluster (Some \<lparr>Resource = cluster\<rparr>)\<rparr>,
               None))"
  using assms by (simp add: Decode_def)

text \<open>
  Claim C1 says that \<open>Decode\<close> returns no result only when deserialization fails, and
  then with an error; that a failed validation still returns the name; and that full
  success returns the decoded cluster. \<open>Decode\<close> tells failed deserialization by the
  empty name alone. When \<open>unmarshalClusterResource\<close> reports a cluster whose name is
  empty, the first case of the switch is taken: for a cluster that is valid, \<open>Decode\<close>
  returns neither a result nor an error, and for one that fails validation it returns the
  error without a name.
\<close>

theorem Decode_empty_name:
  "Decode (\<lambda>resource. ([], cluster, None)) securityConfigValidator opts resource =
     Inr (None, None) \<and>
   Decode (\<lambda>resource. ([], cluster, Some err)) securityConfigValidator opts resource =
     Inr (None, Some err)"
  by (simp add: Decode_def)

text \<open>
  Claim C10. \<open>Equal\<close> is true as soon as the two raw envelopes are the same, whatever
  the decoded fields are. So two cluster resource data whose raw envelopes are both nil
  are \<open>Equal\<close>, in particular two that wrap the zero \<open>ClusterUpdate\<close>; and the
  placeholders of any two failed validations are \<open>Equal\<close>, whatever the two envelopes,
  collaborators and errors.
\<close>
theorem placeholders_Equal:
  "(Raw (Resource a) = Raw (Resource b) \<longrightarrow>
      Equal (Some a) (ResourceData_Cluster (Some b)) = Inr True) \<and>
   (Raw (Resource a) = None \<and> Raw (Resource b) = None \<longrightarrow>
      Equal (Some a) (ResourceData_Cluster (Some b)) = Inr True) \<and>
   (Resource a = ClusterUpdate_zero \<and> Resource b = ClusterUpdate_zero \<longrightarrow>
      Equal (Some a) (ResourceData_Cluster (Some b)) = Inr True) \<and>
   (Decode u1 v1 opts1 r1 = Inr (Some d1, Some e1) \<and>
    Decode u2 v2 opts2 r2 = Inr (Some d2, Some e2) \<longrightarrow>
      (\<exists>c. dr_Resource d1 = ResourceData_Cluster (Some c) \<and>
           Equal (Some c) (dr_Resource d2) = Inr True))"
proof (intro conjI impI)
  assume "Raw (Resource a) = Raw (Resource b)"
  then show "Equal (Some a) (ResourceData_Cluster (Some b)) = Inr True"
    by (simp add: Equal_Some_Cluster)
next
  assume "Raw (Resource a) = None \<and> Raw (Resource b) = None"
  then show "Equal (Some a) (ResourceData_Cluster (Some b)) = Inr True"
    by (simp add: Equal_Some_Cluster)
next
  assume "Resource a = ClusterUpdate_zero \<and> Resource b = ClusterUpdate_zero"
  then show "Equal (Some a) (ResourceData_Cluster (Some b)) = Inr True"
    by (simp add: Equal_Some_Cluster)
next
  assume h: "Decode u1 v1 opts1 r1 = Inr (Some d1, Some e1) \<and>
    Decode u2 v2 opts2 r2 = Inr (Some d2, Some e2)"
  from Decode_result_Cluster [of u1 v1 opts1 r1 d1 "Some e1"] h obtain c1 where
    c1: "dr_Resource d1 = ResourceData_Cluster (Some c1)" "Resource c1 = ClusterUpdate_zero"
    by auto
  from Decode_result_Cluster [of u2 v2 opts2 r2 d2 "Some e2"] h obtain c2 where
    c2: "dr_Resource d2 = ResourceData_Cluster (Some c2)" "Resource c2 = ClusterUpdate_zero"
    by auto
  have "Equal (Some c1) (dr_Resource d2) = Inr True"
    by (simp add: c1 c2 Equal_Some_Cluster)
  with c1 show "\<exists>c. dr_Resource d1 = ResourceData_Cluster (Some c) \<and>
           Equal (Some c) (dr_Resource d2) = Inr True" by blast
qed

text \<open>
  Two envelopes that fail differently, one in unmarshalling and one in the security check:
  different names and errors, and \<open>Equal\<close> placeholders.
\<close>

theorem placeholders_Equal_witness:
  "Decode example_unmarshal example_validator (Some \<lparr>BootstrapConfig = 5\<rparr>) (example_envelope []) =
     Inr (Some \<lparr>Name = ''empty'',
                dr_Resource = ResourceData_Cluster (Some \<lparr>Resource = ClusterUpdate_zero\<rparr>)\<rparr>,
          Some (Errorf ''no payload'' [])) \<and>
   Decode example_unmarshal example_validator (Some \<lparr>BootstrapConfig = 5\<rparr>) (example_envelope [9]) =
     Inr (Some \<lparr>Name = ''cluster'',
                dr_Resource = ResourceData_Cluster (Some \<lparr>Resource = ClusterUpdate_zero\<rparr>)\<rparr>,
          Some (Errorf ''security level %v not allowed'' [Operand_int 9])) \<and>
   Equal (Some \<lparr>Resource = ClusterUpdate_zero :: (nat, nat) ClusterUpdate\<rparr>)
     (ResourceData_Cluster (Some \<lparr>Resource = ClusterUpdate_zero\<rparr>)) = Inr True"
proof -
  note both = placeholders_Equal [THEN conjunct2, THEN conjunct2, THEN conjunct2, rule_format,
      OF conjI [OF Decode_example_invalid [of "Some \<lparr>BootstrapConfig = 5\<rparr>"]
                   Decode_example_rejected]]
  then show ?thesis
    by (simp add: Decode_example_invalid Decode_example_rejected)
qed

section \<open>The narrowing in the delegating watcher\<close>

text \<open>
  Claim C7 says that the narrowing in \<open>OnUpdate\<close> cannot fail. The parameter has the
  interface type, and the narrowing is a type assertion made when the call runs: on the nil
  interface, and on resource data of another kind, it panics.
\<close>
theorem OnUpdate_panics_counterexample:
  "OnUpdate \<lparr>watcher = example_watcher\<rparr> ResourceData_nil [] = Inl InterfaceConversion \<and>
   OnUpdate \<lparr>watcher = example_watcher\<rparr> (ResourceData_other (example_envelope [3, 1])) [] =
     Inl InterfaceConversion"
  by (simp add: OnUpdate_def)

text \<open>
  Claim C7, amended. On every value that holds a \<open>*ClusterResourceData\<close> the narrowing
  succeeds and the wrapped watcher is called with that pointer; every resource that this
  type's \<open>Decode\<close> returns is such a value. On the nil interface and on a value of
  another implementing type the assertion panics.
\<close>

theorem OnUpdate_narrowing:
  "OnUpdate d (ResourceData_Cluster c) s = Inr (cw_OnUpdate (watcher d) c s) \<and>
   (Decode unmarshalClusterResource securityConfigValidator opts resource = Inr (Some dr, err) \<longrightarrow>
      (\<exists>c. dr_Resource dr = ResourceData_Cluster (Some c) \<and>
           OnUpdate d (dr_Resource dr) s = Inr (cw_OnUpdate (watcher d) (Some c) s))) \<and>
   OnUpdate d ResourceData_nil s = Inl InterfaceConversion \<and>
   OnUpdate d (ResourceData_other raw) s = Inl InterfaceConversion"
proof (intro conjI impI)
  assume "Decode unmarshalClusterResource securityConfigValidator opts resource = Inr (Some dr, err)"
  from Decode_result_Cluster [OF this] obtain c where
    "dr_Resource dr = ResourceData_Cluster (Some c)" by blast
  then show "\<exists>c. dr_Resource dr = ResourceData_Cluster (Some c) \<and>
           OnUpdate d (dr_Resource dr) s = Inr (cw_OnUpdate (watcher d) (Some c) s)"
    by (simp add: OnUpdate_def)
qed (simp_all add: OnUpdate_def)

text \<open>The decoded valid example envelope, delivered to the recording watcher.\<close>

theorem OnUpdate_narrowing_witness:
  "Decode example_unmarshal example_validator (Some \<lparr>BootstrapConfig = 5\<rparr>) (example_envelope [3, 1]) =
     Inr (Some \<lparr>Name = ''cluster'',
                dr_Resource = ResourceData_Cluster
                  (Some \<lparr>Resource = \<lparr>SecurityCfg = 3, Raw = example_envelope [3, 1],
                                      OtherFields = 1\<rparr>\<rparr>)\<rparr>,
          None) \<and>
   OnUpdate \<lparr>watcher = example_watcher\<rparr>
     (ResourceData_Cluster
        (Some \<lparr>Resource = \<lparr>SecurityCfg = 3, Raw = example_envelope [3, 1], OtherFields = 1\<rparr>\<rparr>)) [] =
     Inr [Some \<lparr>Resource = \<lparr>SecurityCfg = 3, Raw = example_envelope [3, 1], OtherFields = 1\<rparr>\<rparr>]"
proof -
  note t = OnUpdate_narrowing [where d = "\<lparr>watcher = example_watcher\<rparr>" and s = "[]",
      THEN conjunct2, THEN conjunct1, rule_format, OF Decode_example_valid]
  then show ?thesis
    by (simp add: Decode_example_valid example_watcher_def)
qed

section \<open>Parsing an endpoint assignment\<close>

text \<open>
  Claim C3. When some entry of the message has no locality, the entries split at the first
  such entry \<open>y\<close>, and the parse returns the zero \<open>EndpointsUpdate\<close> with the error
  whose operand is \<open>y\<close> itself, the whole entry.
\<close>
theorem parseEDSRespProto_locality_without_ID:
  assumes "x \<in> set (Endpoints msg)" and "LocalityLbEndpoints_GetLocality x = None"
  shows "\<exists>pre y post.
     Endpoints msg = pre @ y # post \<and>
     (\<forall>z\<in>set pre. LocalityLbEndpoints_GetLocality z \<noteq> None) \<and>
     LocalityLbEndpoints_GetLocality y = None \<and>
     parseEDSRespProto (Some msg) =
       Inr (EndpointsUpdate_zero,
            Some (Errorf ''EDS response contains a locality without ID, locality: %+v''
                    [Operand_locality y]))"
proof -
  from first_without_ID [OF assms] obtain pre y post where
    split: "Endpoints msg = pre @ y # post"
      "\<forall>z\<in>set pre. LocalityLbEndpoints_GetLocality z \<noteq> None"
      "LocalityLbEndpoints_GetLocality y = None" by blast
  from parseEDSRespProto_abort [OF split] split show ?thesis by blast
qed

text \<open>Two entries with a locality followed by one without.\<close>

theorem parseEDSRespProto_locality_without_ID_witness:
  "example_entry None 2 \<in> set (Endpoints scenario_no_ID) \<and>
   LocalityLbEndpoints_GetLocality (example_entry None 2) = None \<and>
   parseEDSRespProto (Some scenario_no_ID) =
     Inr (\<lparr>Drops = [], Localities = []\<rparr>,
          Some (Errorf ''EDS response contains a locality without ID, locality: %+v''
                  [Operand_locality (example_entry None 2)]))"
proof -
  have mem: "example_entry None 2 \<in> set (Endpoints scenario_no_ID)"
    by (simp add: scenario_no_ID_def)
  have none: "LocalityLbEndpoints_GetLocality (example_entry None 2) = None"
    by (simp add: example_entry_simps)
  from parseEDSRespProto_locality_without_ID [OF mem none] obtain pre y post where
    split: "Endpoints scenario_no_ID = pre @ y # post"
      "LocalityLbEndpoints_GetLocality y = None"
    and res: "parseEDSRespProto (Some scenario_no_ID) =
       Inr (EndpointsUpdate_zero,
            Some (Errorf ''EDS response contains a locality without ID, locality: %+v''
                    [Operand_locality y]))" by blast
  from split(1) have "y \<in> set (Endpoints scenario_no_ID)" by simp
  then have "y = example_entry example_locality 0 \<or> y = example_entry example_locality 2 \<or>
      y = example_entry None 2"
    by (simp add: scenario_no_ID_def)
  with split(2) have "y = example_entry None 2"
    by (auto simp: example_entry_simps example_locality_def)
  with res mem none show ?thesis by (simp add: EndpointsUpdate_zero_def)
qed

lemma priorities_loop_empty: "priorities_loop 0 {} = None"
  by (simp add: priorities_loop_None)

text \<open>
  Claim C8. When the parse succeeds, \<open>Drops\<close> is the list of drop policies of the
  message, each parsed, in their order; every entry has a locality; and \<open>Localities\<close> is
  the list of entries in their order, each turned into a \<open>Locality\<close> with the three
  names of its identifier, its weight, its priority and, for each of its endpoints in
  order, the health status, the weight and the address joined from host and decimal port.
  A message with no entry and no drop policy parses to the empty update with a nil error.
\<close>
theorem parseEDSRespProto_order_and_shape:
  "(parseEDSRespProto (Some msg) = Inr (u, None) \<longrightarrow>
      Drops u = map parseDropPolicy (Policy_GetDropOverloads (Policy msg)) \<and>
      (\<forall>x\<in>set (Endpoints msg). LocalityLbEndpoints_GetLocality x \<noteq> None) \<and>
      Localities u =
        map (\<lambda>locality.
              \<lparr>ID = \<lparr>lid_Region = Region (the (LocalityLbEndpoints_GetLocality locality)),
                      lid_Zone = Zone (the (LocalityLbEndpoints_GetLocality locality)),
                      lid_SubZone = SubZone (the (LocalityLbEndpoints_GetLocality locality))\<rparr>,
               loc_Endpoints =
                 map (\<lambda>lbEndpoint.
                       \<lparr>HealthStatus = LbEndpoint_GetHealthStatus lbEndpoint,
                        Address =
                          JoinHostPort
                            (SocketAddress_GetAddress (Address_GetSocketAddress
                               (Endpoint_GetAddress (LbEndpoint_GetEndpoint lbEndpoint))))
                            (Itoa (uint (SocketAddress_GetPortValue (Address_GetSocketAddress
                               (Endpoint_GetAddress (LbEndpoint_GetEndpoint lbEndpoint)))))),
                        ep_Weight =
                          UInt32Value_GetValue (LbEndpoint_GetLoadBalancingWeight lbEndpoint)\<rparr>)
                   (LocalityLbEndpoints_GetLbEndpoints locality),
               Weight = UInt32Value_GetValue (LocalityLbEndpoints_GetLoadBalancingWeight locality),
               Priority = LocalityLbEndpoints_GetPriority locality\<rparr>)
          (Endpoints msg)) \<and>
   (Endpoints msg = [] \<and> Policy_GetDropOverloads (Policy msg) = [] \<longrightarrow>
      parseEDSRespProto (Some msg) = Inr (\<lparr>Drops = [], Localities = []\<rparr>, None))"
proof (intro conjI impI)
  assume ok: "parseEDSRespProto (Some msg) = Inr (u, None)"
  from parseEDSRespProto_nil_error_IDs [OF ok]
  show ids: "\<forall>x\<in>set (Endpoints msg). LocalityLbEndpoints_GetLocality x \<noteq> None" .
  from ok parseEDSRespProto_all_IDs [OF ids]
  have u: "u = \<lparr>Drops = map parseDropPolicy (Policy_GetDropOverloads (Policy msg)),
                Localities = map locality_of (Endpoints msg)\<rparr>"
    by (simp split: option.splits)
  then show "Drops u = map parseDropPolicy (Policy_GetDropOverloads (Policy msg))" by simp
  from u have "Localities u = map locality_of (Endpoints msg)" by simp
  then show "Localities u =
        map (\<lambda>locality.
              \<lparr>ID = \<lparr>lid_Region = Region (the (LocalityLbEndpoints_GetLocality locality)),
                      lid_Zone = Zone (the (LocalityLbEndpoints_GetLocality locality)),
                      lid_SubZone = SubZone (the (LocalityLbEndpoints_GetLocality locality))\<rparr>,
               loc_Endpoints =
                 map (\<lambda>lbEndpoint.
                       \<lparr>HealthStatus = LbEndpoint_GetHealthStatus lbEndpoint,
                        Address =
                          JoinHostPort
                            (SocketAddress_GetAddress (Address_GetSocketAddress
                               (Endpoint_GetAddress (LbEndpoint_GetEndpoint lbEndpoint))))
                            (Itoa (uint (SocketAddress_GetPortValue (Address_GetSocketAddress
                               (Endpoint_GetAddress (LbEndpoint_GetEndpoint lbEndpoint)))))),
                        ep_Weight =
                          UInt32Value_GetValue (LbEndpoint_GetLoadBalancingWeight lbEndpoint)\<rparr>)
                   (LocalityLbEndpoints_GetLbEndpoints locality),
               Weight = UInt32Value_GetValue (LocalityLbEndpoints_GetLoadBalancingWeight locality),
               Priority = LocalityLbEndpoints_GetPriority locality\<rparr>)
          (Endpoints msg)"
    by (simp add: locality_of_def endpoint_of_def Let_def)
next
  assume empty: "Endpoints msg = [] \<and> Policy_GetDropOverloads (Policy msg) = []"
  then have ids: "\<forall>x\<in>set (Endpoints msg). LocalityLbEndpoints_GetLocality x \<noteq> None" by simp
  from empty have "declared_priorities msg = {}" by (simp add: declared_priorities_def)
  with parseEDSRespProto_all_IDs [OF ids] empty
  show "parseEDSRespProto (Some msg) = Inr (\<lparr>Drops = [], Localities = []\<rparr>, None)"
    by (simp add: priorities_loop_empty)
qed

text \<open>Scenario A with one drop policy, and the empty message.\<close>

theorem parseEDSRespProto_order_and_shape_witness:
  "parseEDSRespProto (Some scenario_A) =
     Inr (\<lparr>Drops = [\<lparr>Category = ''lb'', Numerator = 50, Denominator = 100\<rparr>],
           Localities =
             [\<lparr>ID = \<lparr>lid_Region = ''r'', lid_Zone = ''z'', lid_SubZone = ''s''\<rparr>,
               loc_Endpoints = [\<lparr>HealthStatus = 1, Address = ''10.0.0.1:8080'', ep_Weight = 3\<rparr>],
               Weight = 5, Priority = 0\<rparr>,
              \<lparr>ID = \<lparr>lid_Region = ''r'', lid_Zone = ''z'', lid_SubZone = ''s''\<rparr>,
               loc_Endpoints = [\<lparr>HealthStatus = 1, Address = ''10.0.0.1:8080'', ep_Weight = 3\<rparr>],
               Weight = 5, Priority = 1\<rparr>]\<rparr>, None) \<and>
   map parseDropPolicy (Policy_GetDropOverloads (Policy scenario_A)) =
     [\<lparr>Category = ''lb'', Numerator = 50, Denominator = 100\<rparr>] \<and>
   map LocalityLbEndpoints_GetPriority (Endpoints scenario_A) = [0, 1] \<and>
   parseEDSRespProto (Some \<lparr>Endpoints = [], Policy = None\<rparr>) =
     Inr (\<lparr>Drops = [], Localities = []\<rparr>, None)"
proof -
  note a = parseEDSRespProto_order_and_shape [THEN conjunct1, rule_format, OF parse_scenario_A]
  have e: "parseEDSRespProto (Some \<lparr>Endpoints = [], Policy = None\<rparr>) =
     Inr (\<lparr>Drops = [], Localities = []\<rparr>, None)"
    by (rule parseEDSRespProto_order_and_shape [THEN conjunct2, rule_format])
       (simp add: Policy_GetDropOverloads_def)
  have p: "map LocalityLbEndpoints_GetPriority (Endpoints scenario_A) = [0, 1]"
    by (simp add: scenario_A_def example_entry_simps)
  from a have "map parseDropPolicy (Policy_GetDropOverloads (Policy scenario_A)) =
     [\<lparr>Category = ''lb'', Numerator = 50, Denominator = 100\<rparr>]" by simp
  with e p show ?thesis by (simp add: parse_scenario_A)
qed

lemma declared_priorities_examples:
  "declared_priorities scenario_A = {0, 1}"
  "declared_priorities scenario_B = {0, 2}"
  "declared_priorities scenario_duplicates = {0, 1}"
  "declared_priorities scenario_no_ID = {0, 2}"
  by (auto simp: declared_priorities_def scenario_A_def scenario_B_def scenario_duplicates_def
      scenario_no_ID_def example_entry_simps)

lemma IDs_examples:
  "\<forall>x\<in>set (Endpoints scenario_B). LocalityLbEndpoints_GetLocality x \<noteq> None"
  "\<forall>x\<in>set (Endpoints scenario_duplicates). LocalityLbEndpoints_GetLocality x \<noteq> None"
  by (simp_all add: scenario_B_def scenario_duplicates_def example_entry_simps
      example_locality_def)

text \<open>
  Claim C2 says that a gap in the priorities is always answered with the error that names
  the missing priority. In \<open>scenario_no_ID\<close> the priorities are 0 and 2, so 1 is
  missing, and the third entry has no locality: the parse stops at that entry and the
  error is the one about the locality.
\<close>
theorem parseEDSRespProto_gap_counterexample:
  "declared_priorities scenario_no_ID = {0, 2} \<and>
   card (declared_priorities scenario_no_ID) = 2 \<and>
   1 \<notin> declared_priorities scenario_no_ID \<and>
   parseEDSRespProto (Some scenario_no_ID) =
     Inr (\<lparr>Drops = [], Localities = []\<rparr>,
          Some (Errorf ''EDS response contains a locality without ID, locality: %+v''
                  [Operand_locality (example_entry None 2)]))"
proof -
  have "Endpoints scenario_no_ID =
      [example_entry example_locality 0, example_entry example_locality 2] @
      example_entry None 2 # []"
    by (simp add: scenario_no_ID_def)
  from parseEDSRespProto_abort [OF this]
  have "parseEDSRespProto (Some scenario_no_ID) =
     Inr (EndpointsUpdate_zero,
          Some (Errorf ''EDS response contains a locality without ID, locality: %+v''
                  [Operand_locality (example_entry None 2)]))"
    by (simp add: example_entry_simps example_locality_def)
  then show ?thesis
    by (simp add: declared_priorities_examples EndpointsUpdate_zero_def)
qed

text \<open>
  Claim C2, amended. A nil error is returned only when the declared priorities, read as
  numbers, are exactly \<open>0, \<dots>, N - 1\<close> for their number \<open>N\<close>. When every entry has a
  locality this is also enough, however many entries share a priority; and when every entry
  has a locality and the priorities are not of that form, the parse returns the zero
  update and the error whose operands are the least missing priority \<open>j\<close> and the whole
  set of priorities.
\<close>

theorem parseEDSRespProto_priorities:
  "(parseEDSRespProto (Some msg) = Inr (u, None) \<longrightarrow>
      unat ` declared_priorities msg = {0..<card (declared_priorities msg)}) \<and>
   ((\<forall>x\<in>set (Endpoints msg). LocalityLbEndpoints_GetLocality x \<noteq> None) \<and>
    unat ` declared_priorities msg = {0..<card (declared_priorities msg)} \<longrightarrow>
      (\<exists>u. parseEDSRespProto (Some msg) = Inr (u, None))) \<and>
   ((\<forall>x\<in>set (Endpoints msg). LocalityLbEndpoints_GetLocality x \<noteq> None) \<and>
    unat ` declared_priorities msg \<noteq> {0..<card (declared_priorities msg)} \<longrightarrow>
      (\<exists>j. j < card (declared_priorities msg) \<and>
           word_of_nat j \<notin> declared_priorities msg \<and>
           (\<forall>k<j. word_of_nat k \<in> declared_priorities msg) \<and>
           parseEDSRespProto (Some msg) =
             Inr (EndpointsUpdate_zero,
                  Some (Errorf ''priority %v missing (with different priorities %v received)''
                          [Operand_int (int j), Operand_priorities (declared_priorities msg)]))))"
proof (intro conjI impI)
  assume ok: "parseEDSRespProto (Some msg) = Inr (u, None)"
  note ids = parseEDSRespProto_nil_error_IDs [OF ok]
  from ok parseEDSRespProto_all_IDs [OF ids]
  have "priorities_loop 0 (declared_priorities msg) = None"
    by (simp split: option.splits)
  then have "\<forall>j<card (declared_priorities msg). word_of_nat j \<in> declared_priorities msg"
    by (simp add: priorities_loop_None)
  then show "unat ` declared_priorities msg = {0..<card (declared_priorities msg)}"
    by (simp only: contiguous_iff)
next
  assume h: "(\<forall>x\<in>set (Endpoints msg). LocalityLbEndpoints_GetLocality x \<noteq> None) \<and>
    unat ` declared_priorities msg = {0..<card (declared_priorities msg)}"
  then have "\<forall>j<card (declared_priorities msg). word_of_nat j \<in> declared_priorities msg"
    by (simp only: contiguous_iff)
  then have "priorities_loop 0 (declared_priorities msg) = None"
    by (simp add: priorities_loop_None)
  with parseEDSRespProto_all_IDs [of msg] h
  show "\<exists>u. parseEDSRespProto (Some msg) = Inr (u, None)" by simp
next
  assume h: "(\<forall>x\<in>set (Endpoints msg). LocalityLbEndpoints_GetLocality x \<noteq> None) \<and>
    unat ` declared_priorities msg \<noteq> {0..<card (declared_priorities msg)}"
  then have "\<not> (\<forall>j<card (declared_priorities msg). word_of_nat j \<in> declared_priorities msg)"
    by (simp only: contiguous_iff) simp
  then have "priorities_loop 0 (declared_priorities msg) \<noteq> None"
    by (simp add: priorities_loop_None)
  then obtain e where e: "priorities_loop 0 (declared_priorities msg) = Some e" by blast
  from priorities_loop_Some [OF e] obtain j where
    j: "j < card (declared_priorities msg)" "word_of_nat j \<notin> declared_priorities msg"
       "\<forall>k<j. word_of_nat k \<in> declared_priorities msg"
       "e = Errorf ''priority %v missing (with different priorities %v received)''
              [Operand_int (int j), Operand_priorities (declared_priorities msg)]"
    by auto
  from parseEDSRespProto_all_IDs [of msg] h e
  have "parseEDSRespProto (Some msg) = Inr (EndpointsUpdate_zero, Some e)" by simp
  with j show "\<exists>j. j < card (declared_priorities msg) \<and>
           word_of_nat j \<notin> declared_priorities msg \<and>
           (\<forall>k<j. word_of_nat k \<in> declared_priorities msg) \<and>
           parseEDSRespProto (Some msg) =
             Inr (EndpointsUpdate_zero,
                  Some (Errorf ''priority %v missing (with different priorities %v received)''
                          [Operand_int (int j), Operand_priorities (declared_priorities msg)]))"
    by blast
qed

text \<open>
  Scenario A parses; three entries at priorities 0, 0 and 1 parse; scenario B is answered
  with the missing priority 1 and the set of 0 and 2.
\<close>

theorem parseEDSRespProto_priorities_witness:
  "unat ` declared_priorities scenario_A = {0..<card (declared_priorities scenario_A)} \<and>
   declared_priorities scenario_duplicates = {0, 1} \<and>
   length (Endpoints scenario_duplicates) = 3 \<and>
   (\<exists>u. parseEDSRespProto (Some scenario_duplicates) = Inr (u, None)) \<and>
   parseEDSRespProto (Some scenario_B) =
     Inr (\<lparr>Drops = [], Localities = []\<rparr>,
          Some (Errorf ''priority %v missing (with different priorities %v received)''
                  [Operand_int 1, Operand_priorities {0, 2}]))"
proof -
  note a = parseEDSRespProto_priorities [THEN conjunct1, rule_format, OF parse_scenario_A]
  have d: "\<exists>u. parseEDSRespProto (Some scenario_duplicates) = Inr (u, None)"
    by (rule parseEDSRespProto_priorities [THEN conjunct2, THEN conjunct1, rule_format])
       (auto simp: IDs_examples declared_priorities_examples)
  have "\<exists>j. j < card (declared_priorities scenario_B) \<and>
           word_of_nat j \<notin> declared_priorities scenario_B \<and>
           (\<forall>k<j. word_of_nat k \<in> declared_priorities scenario_B) \<and>
           parseEDSRespProto (Some scenario_B) =
             Inr (EndpointsUpdate_zero,
                  Some (Errorf ''priority %v missing (with different priorities %v received)''
                          [Operand_int (int j), Operand_priorities (declared_priorities scenario_B)]))"
    by (rule parseEDSRespProto_priorities [THEN conjunct2, THEN conjunct2, rule_format])
       (auto simp: IDs_examples declared_priorities_examples)
  then obtain j where j: "j < card {0, 2 :: uint32}" "word_of_nat j \<notin> {0, 2 :: uint32}"
    and res: "parseEDSRespProto (Some scenario_B) =
             Inr (EndpointsUpdate_zero,
                  Some (Errorf ''priority %v missing (with different priorities %v received)''
                          [Operand_int (int j), Operand_priorities {0, 2}]))"
    by (auto simp: declared_priorities_examples)
  from j have "j = 1" by (cases "j = 0") auto
  moreover have "length (Endpoints scenario_duplicates) = 3"
    by (simp add: scenario_duplicates_def)
  ultimately show ?thesis using res a d
    by (simp add: EndpointsUpdate_zero_def declared_priorities_examples)
qed

end
